theory Spec2Isabelle
  imports Main "HOL-Library.Word"
begin

unbundle bit_operations_syntax

section \<open>Strings and the code-page table\<close>

text \<open>
  A JavaScript string is a sequence of UTF-16 code units; in CP437 mode every unit of the
  input is a byte value. Strings of the converter are lists of code units, and string
  literals of the source are written \<open>codes ''...''\<close>.
\<close>

type_synonym jsstring = "nat list"

definition codes :: "string \<Rightarrow> jsstring" where
  "codes s = map of_char s"

text \<open>
  \<open>CP437_TO_UNICODE\<close> of cp437.ts: 256 entries, one code unit each. The entries for
  \<open>0x20\<close> to \<open>0x7E\<close> are the ASCII characters themselves.
\<close>

definition CP437_TO_UNICODE :: "nat list" where
  "CP437_TO_UNICODE =
  [
   0, 9786, 9787, 9829, 9830, 9827, 9824, 8226,
   9688, 9675, 9689, 9794, 9792, 9834, 9835, 9788,
   9658, 9668, 8597, 8252, 182, 167, 9644, 8616,
   8593, 8595, 8594, 8592, 8735, 8596, 9650, 9660]
  @ [32..<127] @
  [
   8962, 199, 252, 233, 226, 228, 224, 229,
   231, 234, 235, 232, 239, 238, 236, 196,
   197, 201, 230, 198, 244, 246, 242, 251,
   249, 255, 214, 220, 162, 163, 165, 8359,
   402, 225, 237, 243, 250, 241, 209, 170,
   186, 191, 8976, 172, 189, 188, 161, 171,
   187, 9617, 9618, 9619, 9474, 9508, 9569, 9570,
   9558, 9557, 9571, 9553, 9559, 9565, 9564, 9563,
   9488, 9492, 9524, 9516, 9500, 9472, 9532, 9566,
   9567, 9562, 9556, 9577, 9574, 9568, 9552, 9580,
   9575, 9576, 9572, 9573, 9561, 9560, 9554, 9555,
   9579, 9578, 9496, 9484, 9608, 9604, 9612, 9616,
   9600, 945, 223, 915, 960, 931, 963, 181,
   964, 934, 920, 937, 948, 8734, 966, 949,
   8745, 8801, 177, 8805, 8804, 8992, 8993, 247,
   8776, 176, 8729, 183, 8730, 8319, 178, 9632,
   160]"

text \<open>\<open>s.slice(a, b)\<close> for non-negative indices.\<close>

definition slice :: "jsstring \<Rightarrow> nat \<Rightarrow> nat \<Rightarrow> jsstring" where
  "slice s a b = take (b - a) (drop a s)"

text \<open>\<open>s.lastIndexOf(pat)\<close>: the greatest index at which \<open>pat\<close> occurs, if any.\<close>

definition lastIndexOf :: "jsstring \<Rightarrow> jsstring \<Rightarrow> nat option" where
  "lastIndexOf s pat =
     List.find (\<lambda>i. take (length pat) (drop i s) = pat) (rev [0..<Suc (length s)])"

text \<open>
  \<open>for (const ch of s)\<close> iterates by code point: a high surrogate followed by a low
  surrogate is one element of two units.
\<close>

fun codePoints :: "jsstring \<Rightarrow> jsstring list" where
  "codePoints [] = []"
| "codePoints [x] = [[x]]"
| "codePoints (h # l # rest) =
     (if 55296 \<le> h \<and> h \<le> 56319 \<and> 56320 \<le> l \<and> l \<le> 57343
      then [h, l] # codePoints rest
      else [h] # codePoints (l # rest))"

text \<open>Decimal rendering of a non-negative integer, as a template literal does.\<close>

fun showNat :: "nat \<Rightarrow> jsstring" where
  "showNat n = (if n < 10 then [48 + n] else showNat (n div 10) @ [48 + n mod 10])"

declare showNat.simps [simp del]

definition isDigit :: "nat \<Rightarrow> bool" where
  "isDigit ch = (48 \<le> ch \<and> ch \<le> 57)"

text \<open>
  \<open>parseInt(s, 10)\<close> on the strings the converter passes to it, which hold digits and
  semicolons only: the value of the leading digits, \<open>None\<close> (NaN) when there is none.
\<close>

definition parseInt10 :: "jsstring \<Rightarrow> int option" where
  "parseInt10 s =
     (case takeWhile isDigit s of
        [] \<Rightarrow> None
      | ds \<Rightarrow> Some (foldl (\<lambda>acc d. acc * 10 + (int d - 48)) 0 ds))"

text \<open>\<open>params.split(';')\<close>.\<close>

fun splitSemi :: "jsstring \<Rightarrow> jsstring list" where
  "splitSemi [] = [[]]"
| "splitSemi (x # xs) =
     (if x = 59 then [] # splitSemi xs
      else (case splitSemi xs of [] \<Rightarrow> [[x]] | y # ys \<Rightarrow> (x # y) # ys))"

section \<open>colors.ts\<close>

definition colorToHex :: "int \<Rightarrow> jsstring" where
  "colorToHex color =
     (if color \<ge> 0 \<and> color \<le> 9 then [nat (48 + color)]
      else if color \<ge> 10 \<and> color \<le> 15 then [nat (97 + color - 10)]
      else codes ''0'')"

section \<open>SAUCE records\<close>

record SauceRecord =
  title :: jsstring
  author :: jsstring
  group :: jsstring
  date :: jsstring
  width :: nat
  height :: nat
  comments :: "jsstring list"
  font :: jsstring

text \<open>The characters matched by \<open>[\s\0]\<close>.\<close>

definition isTrimChar :: "nat \<Rightarrow> bool" where
  "isTrimChar ch =
     (ch = 0 \<or> (9 \<le> ch \<and> ch \<le> 13) \<or> ch = 32 \<or> ch = 160 \<or> ch = 5760
      \<or> (8192 \<le> ch \<and> ch \<le> 8202) \<or> ch = 8232 \<or> ch = 8233 \<or> ch = 8239
      \<or> ch = 8287 \<or> ch = 12288 \<or> ch = 65279)"

definition decodeField :: "jsstring \<Rightarrow> nat \<Rightarrow> nat \<Rightarrow> jsstring" where
  "decodeField input start len =
     (let result = map (\<lambda>code. if code < 256 then CP437_TO_UNICODE ! code else code)
                       (slice input start (start + len))
      in rev (dropWhile isTrimChar (rev result)))"

text \<open>The loop over the COMNT body, 64 units a line; empty lines are dropped.\<close>

function commentLines :: "jsstring \<Rightarrow> nat \<Rightarrow> jsstring list" where
  "commentLines commentData i =
     (if i < length commentData
      then (let line = decodeField commentData i 64
            in (if line \<noteq> [] then [line] else []) @ commentLines commentData (i + 64))
      else [])"
  by pat_completeness auto
termination
  by (relation "measure (\<lambda>(d, i). length d - i)") auto

declare commentLines.simps [simp del]

definition parseSauceRecord :: "jsstring \<Rightarrow> nat \<Rightarrow> nat option \<Rightarrow> SauceRecord option" where
  "parseSauceRecord input saucePos comntPos =
     (if saucePos + 128 > length input then None
      else if slice input saucePos (saucePos + 5) \<noteq> codes ''SAUCE'' then None
      else Some
        \<lparr> title = decodeField input (saucePos + 7) 35,
          author = decodeField input (saucePos + 42) 20,
          group = decodeField input (saucePos + 62) 20,
          date = decodeField input (saucePos + 82) 8,
          width = (input ! (saucePos + 96)) OR push_bit 8 (input ! (saucePos + 97)),
          height = (input ! (saucePos + 98)) OR push_bit 8 (input ! (saucePos + 99)),
          comments =
            (case comntPos of
               None \<Rightarrow> []
             | Some cp \<Rightarrow>
                 if cp < saucePos \<and> slice input cp (cp + 5) = codes ''COMNT''
                 then commentLines (slice input (cp + 5) saucePos) 0
                 else []),
          font = decodeField input (saucePos + 106) 22 \<rparr>)"

definition formatSauceOutput :: "SauceRecord \<Rightarrow> jsstring" where
  "formatSauceOutput sauce =
     (let out0 = [];
          out1 = (if title sauce \<noteq> [] then out0 @ codes ''Title: '' @ title sauce @ [10] else out0);
          out2 = (if author sauce \<noteq> [] then out1 @ codes ''Author: '' @ author sauce @ [10] else out1);
          out3 = (if group sauce \<noteq> [] then out2 @ codes ''Group: '' @ group sauce @ [10] else out2);
          out4 = (if date sauce \<noteq> []
                  then (if length (date sauce) = 8 \<and> list_all isDigit (date sauce)
                        then out3 @ codes ''Date: '' @ slice (date sauce) 0 4 @ codes ''-''
                               @ slice (date sauce) 4 6 @ codes ''-'' @ slice (date sauce) 6 8 @ [10]
                        else out3 @ codes ''Date: '' @ date sauce @ [10])
                  else out3);
          out5 = (if width sauce > 0 \<or> height sauce > 0
                  then out4 @ codes ''Size: '' @ showNat (width sauce) @ codes ''x''
                         @ showNat (height sauce) @ [10]
                  else out4);
          out6 = (if font sauce \<noteq> [] then out5 @ codes ''Font: '' @ font sauce @ [10] else out5)
      in foldl (\<lambda>out comment. out @ codes ''Comment: '' @ comment @ [10]) out6 (comments sauce))"

text \<open>\<open>findSaucePositions\<close>: \<open>None\<close> stands for \<open>[null, null, null]\<close>.\<close>

definition findSaucePositions :: "jsstring \<Rightarrow> (nat \<times> nat option \<times> nat) option" where
  "findSaucePositions input =
     (case lastIndexOf input (codes ''SAUCE00'') of
        None \<Rightarrow> None
      | Some saucePos \<Rightarrow>
          (let searchStart = (if saucePos \<ge> 64 * 256 + 5 then saucePos - (64 * 256 + 5) else 0);
               searchArea = slice input searchStart saucePos;
               comntPos = (case lastIndexOf searchArea (codes ''COMNT'') of
                             None \<Rightarrow> None
                           | Some comntRelPos \<Rightarrow> Some (searchStart + comntRelPos));
               afterSaucePos = saucePos + 128
           in Some (saucePos, comntPos, afterSaucePos)))"

section \<open>The converter\<close>

record ConvertOptions =
  synchronetCtrlA :: bool
  renegadePipe :: bool
  utf8Input :: bool

datatype ParseState = Normal | Escape | Csi | SynchronetCtrlA | RenegadePipe1 | RenegadePipe2

definition ansiToCga :: "int \<Rightarrow> int" where
  "ansiToCga ansiColor =
     (if ansiColor = 0 then 0 else if ansiColor = 1 then 4 else if ansiColor = 2 then 2
      else if ansiColor = 3 then 6 else if ansiColor = 4 then 1 else if ansiColor = 5 then 5
      else if ansiColor = 6 then 3 else if ansiColor = 7 then 7 else 7)"

definition ansiBrightToCga :: "int \<Rightarrow> int" where
  "ansiBrightToCga ansiColor =
     (if ansiColor = 0 then 8 else if ansiColor = 1 then 12 else if ansiColor = 2 then 10
      else if ansiColor = 3 then 14 else if ansiColor = 4 then 9 else if ansiColor = 5 then 13
      else if ansiColor = 6 then 11 else if ansiColor = 7 then 15 else 15)"

text \<open>
  The private fields of class \<open>Converter\<close>. Colours and SGR codes are JavaScript numbers
  (\<open>int\<close>), character codes and counters are \<open>nat\<close>.
\<close>

record Converter =
  foreground :: int
  background :: int
  "output" :: jsstring
  currentColumn :: nat
  lineHasAnsi :: bool
  savePositionActive :: bool
  parseState :: ParseState
  csiParams :: jsstring
  renegadeFirstDigit :: nat
  options :: ConvertOptions

text \<open>The field initialisers and the constructor.\<close>

definition newConverter :: "ConvertOptions \<Rightarrow> Converter" where
  "newConverter opts =
     \<lparr> foreground = 7, background = 0, output = [], currentColumn = 0, lineHasAnsi = False,
       savePositionActive = False, parseState = Normal, csiParams = [],
       renegadeFirstDigit = 0, options = opts \<rparr>"

definition defaultOptions :: ConvertOptions where
  "defaultOptions = \<lparr> synchronetCtrlA = False, renegadePipe = False, utf8Input = False \<rparr>"

definition openTag :: "Converter \<Rightarrow> Converter" where
  "openTag c =
     (let bg = colorToHex (background c); fg = colorToHex (foreground c)
      in c\<lparr>output := output c @ codes ''<ans-'' @ bg @ fg @ codes ''>''\<rparr>)"

definition closeTag :: "Converter \<Rightarrow> Converter" where
  "closeTag c =
     (let bg = colorToHex (background c); fg = colorToHex (foreground c)
      in c\<lparr>output := output c @ codes ''</ans-'' @ bg @ fg @ codes ''>''\<rparr>)"

definition switchColor :: "Converter \<Rightarrow> int \<Rightarrow> int \<Rightarrow> Converter" where
  "switchColor c newBg newFg =
     (if newBg \<noteq> background c \<or> newFg \<noteq> foreground c
      then openTag ((closeTag c)\<lparr>background := newBg, foreground := newFg\<rparr>)
      else c)"

text \<open>\<open>emitChar(ch)\<close>; \<open>ch\<close> is a string holding one code point.\<close>

definition emitChar :: "Converter \<Rightarrow> jsstring \<Rightarrow> Converter" where
  "emitChar c ch =
     (if savePositionActive c then c
      else
        (let c1 = (if lineHasAnsi c \<and> currentColumn c \<ge> 80 \<and> ch \<noteq> [10]
                   then c\<lparr>output := output c @ [10], currentColumn := 0\<rparr>
                   else c)
         in if ch = codes ''<''
            then c1\<lparr>output := output c1 @ codes ''&lt;'', currentColumn := currentColumn c1 + 1\<rparr>
            else if ch = codes ''>''
            then c1\<lparr>output := output c1 @ codes ''&gt;'', currentColumn := currentColumn c1 + 1\<rparr>
            else if ch = codes ''&''
            then c1\<lparr>output := output c1 @ codes ''&amp;'', currentColumn := currentColumn c1 + 1\<rparr>
            else if ch = [34]
            then c1\<lparr>output := output c1 @ codes ''&quot;'', currentColumn := currentColumn c1 + 1\<rparr>
            else if ch = [39]
            then c1\<lparr>output := output c1 @ codes ''&apos;'', currentColumn := currentColumn c1 + 1\<rparr>
            else if ch = [10]
            then c1\<lparr>output := output c1 @ [10], currentColumn := 0, lineHasAnsi := False\<rparr>
            else if ch = [13]
            then c1
            else c1\<lparr>output := output c1 @ ch, currentColumn := currentColumn c1 + 1\<rparr>))"

text \<open>One iteration of the loop over the SGR codes, on the working copy \<open>(newFg, newBg)\<close>.\<close>

definition sgrStep :: "int \<times> int \<Rightarrow> int \<Rightarrow> int \<times> int" where
  "sgrStep st code =
     (let newFg = fst st; newBg = snd st
      in if code = 0 then (7, 0)
         else if code = 1 then (newFg OR 8, newBg)
         else if code = 2 \<or> code = 22 then (newFg AND 7, newBg)
         else if code = 5 \<or> code = 6 then (newFg, newBg OR 8)
         else if code = 25 then (newFg, newBg AND 7)
         else if code = 7 then (newBg, newFg)
         else if 30 \<le> code \<and> code \<le> 37 then ((newFg AND 8) OR ansiToCga (code - 30), newBg)
         else if code = 39 then (7, newBg)
         else if 40 \<le> code \<and> code \<le> 47 then (newFg, (newBg AND 8) OR ansiToCga (code - 40))
         else if code = 49 then (newFg, 0)
         else if 90 \<le> code \<and> code \<le> 97 then (ansiBrightToCga (code - 90), newBg)
         else if 100 \<le> code \<and> code \<le> 107 then (newFg, ansiBrightToCga (code - 100))
         else (newFg, newBg))"

text \<open>\<open>parseInt(s, 10) || 0\<close>.\<close>

definition parseIntOr0 :: "jsstring \<Rightarrow> int" where
  "parseIntOr0 s = (case parseInt10 s of None \<Rightarrow> 0 | Some n \<Rightarrow> if n = 0 then 0 else n)"

definition sgrCodes :: "jsstring \<Rightarrow> int list" where
  "sgrCodes params = (if params = [] then [0] else map parseIntOr0 (splitSemi params))"

definition processSgr :: "Converter \<Rightarrow> jsstring \<Rightarrow> Converter" where
  "processSgr c params =
     (let st = foldl sgrStep (foreground c, background c) (sgrCodes params)
      in switchColor c (snd st) (fst st))"

definition processCsi :: "Converter \<Rightarrow> jsstring \<Rightarrow> nat \<Rightarrow> Converter" where
  "processCsi c0 params command =
     (let c = c0\<lparr>lineHasAnsi := True\<rparr>
      in if command = 109 then processSgr c params
         else if command = 74 then
           (let n = parseIntOr0 params
            in if n = 2 \<or> n = 3 then emitChar (emitChar (emitChar c [10]) [10]) [10] else c)
         else if command = 115 then c\<lparr>savePositionActive := True\<rparr>
         else if command = 117 then c\<lparr>savePositionActive := False\<rparr>
         else if command = 72 \<or> command = 102 then c
         else if command = 67 then
           (let n = max 1 (case parseInt10 params of None \<Rightarrow> 1 | Some k \<Rightarrow> if k = 0 then 1 else k)
            in ((\<lambda>c'. emitChar c' [32]) ^^ nat n) c)
         else if command = 65 \<or> command = 66 \<or> command = 68 then c
         else if command = 75 then c
         else c)"

text \<open>The \<open>switch\<close> of \<open>processSynchronetCode\<close> on the working copy \<open>(newFg, newBg)\<close>.\<close>

definition synchronetSwitch :: "nat \<Rightarrow> int \<times> int \<Rightarrow> int \<times> int" where
  "synchronetSwitch code st =
     (let newFg = fst st; newBg = snd st
      in if code = 107 then (0, newBg) else if code = 98 then (1, newBg)
         else if code = 103 then (2, newBg) else if code = 99 then (3, newBg)
         else if code = 114 then (4, newBg) else if code = 109 then (5, newBg)
         else if code = 121 then (6, newBg) else if code = 119 then (7, newBg)
         else if code = 75 then (8, newBg) else if code = 66 then (9, newBg)
         else if code = 71 then (10, newBg) else if code = 67 then (11, newBg)
         else if code = 82 then (12, newBg) else if code = 77 then (13, newBg)
         else if code = 89 then (14, newBg) else if code = 87 then (15, newBg)
         else if code = 48 then (newFg, 0) else if code = 49 then (newFg, 1)
         else if code = 50 then (newFg, 2) else if code = 51 then (newFg, 3)
         else if code = 52 then (newFg, 4) else if code = 53 then (newFg, 5)
         else if code = 54 then (newFg, 6) else if code = 55 then (newFg, 7)
         else if code = 72 \<or> code = 104 then (newFg OR 8, newBg)
         else if code = 73 \<or> code = 105 then (newFg, newBg OR 8)
         else if code = 78 \<or> code = 110 then (7, 0)
         else if code = 45 then (newFg AND 7, newBg)
         else if code = 95 then (newFg, newBg AND 7)
         else (newFg, newBg))"

definition processSynchronetCode :: "Converter \<Rightarrow> nat \<Rightarrow> Converter" where
  "processSynchronetCode c0 code =
     (let c = c0\<lparr>lineHasAnsi := True\<rparr>;
          st = synchronetSwitch code (foreground c, background c)
      in switchColor c (snd st) (fst st))"

definition processRenegadeCode :: "Converter \<Rightarrow> nat \<Rightarrow> Converter" where
  "processRenegadeCode c0 code =
     (let c = c0\<lparr>lineHasAnsi := True\<rparr>;
          newFg = foreground c;
          newBg = background c;
          st = (if code \<ge> 0 \<and> code \<le> 15 then (int code, newBg)
                else if code \<ge> 16 \<and> code \<le> 23 then (newFg, int code - 16)
                else (newFg, newBg))
      in switchColor c (snd st) (fst st))"

text \<open>
  \<open>processCharCode\<close>. The two Renegade states call the function again on the same byte
  after returning to \<open>Normal\<close>; that call does not recurse further.
\<close>

function processCharCode :: "Converter \<Rightarrow> nat \<Rightarrow> Converter" where
  "processCharCode c charCode =
     (case parseState c of
        Normal \<Rightarrow>
          if charCode = 27 then c\<lparr>parseState := Escape\<rparr>
          else if synchronetCtrlA (options c) \<and> charCode = 1 then c\<lparr>parseState := SynchronetCtrlA\<rparr>
          else if renegadePipe (options c) \<and> charCode = 124 then c\<lparr>parseState := RenegadePipe1\<rparr>
          else if charCode = 10 then emitChar c [10]
          else if charCode = 13 then c
          else if charCode < 32 \<or> charCode \<ge> 127
          then emitChar c [if charCode < 256 then CP437_TO_UNICODE ! charCode else 65533]
          else emitChar c [charCode]
      | Escape \<Rightarrow>
          if charCode = 91 then c\<lparr>parseState := Csi, csiParams := []\<rparr>
          else if charCode = 55
          then c\<lparr>savePositionActive := True, lineHasAnsi := True, parseState := Normal\<rparr>
          else if charCode = 56
          then c\<lparr>savePositionActive := False, lineHasAnsi := True, parseState := Normal\<rparr>
          else c\<lparr>parseState := Normal\<rparr>
      | Csi \<Rightarrow>
          if (charCode \<ge> 48 \<and> charCode \<le> 57) \<or> charCode = 59
          then c\<lparr>csiParams := csiParams c @ [charCode]\<rparr>
          else if charCode \<ge> 64 \<and> charCode \<le> 126
          then (processCsi c (csiParams c) charCode)\<lparr>parseState := Normal\<rparr>
          else c\<lparr>parseState := Normal\<rparr>
      | SynchronetCtrlA \<Rightarrow> (processSynchronetCode c charCode)\<lparr>parseState := Normal\<rparr>
      | RenegadePipe1 \<Rightarrow>
          if charCode \<ge> 48 \<and> charCode \<le> 57
          then c\<lparr>renegadeFirstDigit := charCode - 48, parseState := RenegadePipe2\<rparr>
          else processCharCode ((emitChar c (codes ''|''))\<lparr>parseState := Normal\<rparr>) charCode
      | RenegadePipe2 \<Rightarrow>
          if charCode \<ge> 48 \<and> charCode \<le> 57
          then (let code = renegadeFirstDigit c * 10 + (charCode - 48)
                in (if code \<le> 23 then processRenegadeCode c code else c)\<lparr>parseState := Normal\<rparr>)
          else processCharCode
                 ((emitChar (emitChar c (codes ''|'')) [48 + renegadeFirstDigit c])
                    \<lparr>parseState := Normal\<rparr>) charCode)"
  by pat_completeness auto
termination
  by (relation "measure (\<lambda>(c, ch). if parseState c = Normal then 0 else 1)") auto

declare processCharCode.simps [simp del]

text \<open>The loop over the content after the SAUCE record, which stops at a SUB byte.\<close>

fun processUntilSub :: "Converter \<Rightarrow> jsstring \<Rightarrow> Converter" where
  "processUntilSub c [] = c"
| "processUntilSub c (charCode # rest) =
     (if charCode = 26 then c else processUntilSub (processCharCode c charCode) rest)"

text \<open>The first index of a SUB byte, \<open>None\<close> for \<open>subPos = -1\<close>.\<close>

fun findSub :: "jsstring \<Rightarrow> nat \<Rightarrow> nat option" where
  "findSub [] i = None"
| "findSub (x # xs) i = (if x = 26 then Some i else findSub xs (Suc i))"

definition contentEnd :: "jsstring \<Rightarrow> nat" where
  "contentEnd input =
     (case findSub input 0 of
        Some subPos \<Rightarrow> subPos
      | None \<Rightarrow>
          (case findSaucePositions input of
             None \<Rightarrow> length input
           | Some (saucePos, comntPos, afterSaucePos) \<Rightarrow>
               (case comntPos of Some cp \<Rightarrow> cp | None \<Rightarrow> saucePos)))"

text \<open>The part of \<open>convert\<close> that runs when a SAUCE marker was found.\<close>

definition processSauce :: "Converter \<Rightarrow> jsstring \<Rightarrow> nat \<Rightarrow> nat option \<Rightarrow> nat \<Rightarrow> Converter" where
  "processSauce c input saucePos comntPos afterSaucePos =
     (let c1 =
            (case parseSauceRecord input saucePos comntPos of
               None \<Rightarrow> c
             | Some sauce \<Rightarrow>
                 (let sauceOutput = formatSauceOutput sauce
                  in if sauceOutput \<noteq> []
                     then foldl emitChar (emitChar c [10]) (codePoints sauceOutput)
                     else c))
      in if afterSaucePos < length input
         then (let remaining = drop afterSaucePos input
               in if list_ex (\<lambda>code. code \<noteq> 0 \<and> code \<noteq> 26) remaining
                  then processUntilSub (emitChar c1 [10]) remaining
                  else c1)
         else c1)"

text \<open>\<open>new Converter(options).convert(input)\<close>: the CP437 path of \<open>ansiToHtml\<close>.\<close>

definition startConverter :: "ConvertOptions \<Rightarrow> Converter" where
  "startConverter opts = openTag ((newConverter opts)\<lparr>output := codes ''<pre class=\"ansi\">''\<rparr>)"

definition convert :: "ConvertOptions \<Rightarrow> jsstring \<Rightarrow> jsstring" where
  "convert opts input =
     (let c0 = startConverter opts;
          c1 = foldl processCharCode c0 (take (contentEnd input) input);
          c2 = (case findSaucePositions input of
                  None \<Rightarrow> c1
                | Some (saucePos, comntPos, afterSaucePos) \<Rightarrow>
                    processSauce c1 input saucePos comntPos afterSaucePos)
      in output (closeTag c2) @ codes ''</pre>'')"

text \<open>\<open>s.includes(sub)\<close>, as the tests' \<open>assertStringIncludes\<close> checks it.\<close>

fun stringIncludes :: "jsstring \<Rightarrow> jsstring \<Rightarrow> bool" where
  "stringIncludes [] sub = (sub = [])"
| "stringIncludes (x # xs) sub = (take (length sub) (x # xs) = sub \<or> stringIncludes xs sub)"

text \<open>The option sets used by the tests.\<close>

definition renegadeOptions :: ConvertOptions where
  "renegadeOptions = \<lparr> synchronetCtrlA = False, renegadePipe = True, utf8Input = False \<rparr>"

definition synchronetOptions :: ConvertOptions where
  "synchronetOptions = \<lparr> synchronetCtrlA = True, renegadePipe = False, utf8Input = False \<rparr>"

text \<open>A colour field holds a CGA index; a character is a lowercase hexadecimal digit.\<close>

definition cgaIndex :: "int \<Rightarrow> bool" where
  "cgaIndex x = (0 \<le> x \<and> x \<le> 15)"

definition colorsInRange :: "Converter \<Rightarrow> bool" where
  "colorsInRange c = (cgaIndex (foreground c) \<and> cgaIndex (background c))"

definition isHexNibble :: "nat \<Rightarrow> bool" where
  "isHexNibble ch = ((48 \<le> ch \<and> ch \<le> 57) \<or> (97 \<le> ch \<and> ch \<le> 102))"

text \<open>
  A literal character: printable ASCII that \<open>emitChar\<close> copies to the output as it is
  (none of the five escaped characters) and that starts no vendor sequence.
\<close>

definition literalChar :: "nat \<Rightarrow> bool" where
  "literalChar ch =
     (32 \<le> ch \<and> ch \<le> 126 \<and> ch \<noteq> 60 \<and> ch \<noteq> 62 \<and> ch \<noteq> 38 \<and> ch \<noteq> 34 \<and> ch \<noteq> 39
      \<and> ch \<noteq> 124)"

text \<open>The characters that the \<open>Csi\<close> state collects as parameters.\<close>

definition csiParamChar :: "nat \<Rightarrow> bool" where
  "csiParamChar ch = ((ch \<ge> 48 \<and> ch \<le> 57) \<or> ch = 59)"

section \<open>The SAUCE block as the specification words it\<close>

text \<open>
  One \<open>Key: Value\<close> line per non-empty field in the order Title, Author, Group, Date,
  Size, Font, then one Comment line per comment; the date is rewritten from CCYYMMDD to
  CCYY-MM-DD when it is exactly eight digits; the size line is there when width or height
  is not zero.
\<close>

definition specLine :: "string \<Rightarrow> jsstring \<Rightarrow> jsstring" where
  "specLine key v = codes key @ codes '': '' @ v @ [10]"

definition specDate :: "jsstring \<Rightarrow> jsstring" where
  "specDate d =
     (if length d = 8 \<and> list_all isDigit d
      then take 4 d @ codes ''-'' @ take 2 (drop 4 d) @ codes ''-'' @ drop 6 d
      else d)"

definition specSauceBlock :: "SauceRecord \<Rightarrow> jsstring" where
  "specSauceBlock s =
     (if title s = [] then [] else specLine ''Title'' (title s))
     @ (if author s = [] then [] else specLine ''Author'' (author s))
     @ (if group s = [] then [] else specLine ''Group'' (group s))
     @ (if date s = [] then [] else specLine ''Date'' (specDate (date s)))
     @ (if width s \<noteq> 0 \<or> height s \<noteq> 0
        then specLine ''Size'' (showNat (width s) @ codes ''x'' @ showNat (height s))
        else [])
     @ (if font s = [] then [] else specLine ''Font'' (font s))
     @ concat (map (specLine ''Comment'') (comments s))"

section \<open>Basic facts\<close>

lemma codes_lits:
  "codes ''<'' = [60]" "codes ''>'' = [62]" "codes ''&'' = [38]" "codes ''|'' = [124]"
  "codes ''0'' = [48]" "codes ''-'' = [45]" "codes ''x'' = [120]"
  by (simp_all add: codes_def)

lemma switchColor_colors:
  "foreground (switchColor c bg fg) = fg" "background (switchColor c bg fg) = bg"
  by (simp_all add: switchColor_def openTag_def closeTag_def Let_def)

lemma switchColor_same: "switchColor c (background c) (foreground c) = c"
  by (simp add: switchColor_def)

lemma switchColor_frame:
  "currentColumn (switchColor c bg fg) = currentColumn c"
  "lineHasAnsi (switchColor c bg fg) = lineHasAnsi c"
  "savePositionActive (switchColor c bg fg) = savePositionActive c"
  "parseState (switchColor c bg fg) = parseState c"
  "csiParams (switchColor c bg fg) = csiParams c"
  "renegadeFirstDigit (switchColor c bg fg) = renegadeFirstDigit c"
  "options (switchColor c bg fg) = options c"
  by (simp_all add: switchColor_def openTag_def closeTag_def Let_def)

lemma emitChar_frame:
  "foreground (emitChar c ch) = foreground c"
  "background (emitChar c ch) = background c"
  "savePositionActive (emitChar c ch) = savePositionActive c"
  "parseState (emitChar c ch) = parseState c"
  "csiParams (emitChar c ch) = csiParams c"
  "renegadeFirstDigit (emitChar c ch) = renegadeFirstDigit c"
  "options (emitChar c ch) = options c"
  by (simp_all add: emitChar_def Let_def)

lemma emitChar_suppressed: "savePositionActive c \<Longrightarrow> emitChar c ch = c"
  by (simp add: emitChar_def)

lemma processCharCode_Normal:
  "parseState c = Normal \<Longrightarrow> processCharCode c charCode =
     (if charCode = 27 then c\<lparr>parseState := Escape\<rparr>
      else if synchronetCtrlA (options c) \<and> charCode = 1 then c\<lparr>parseState := SynchronetCtrlA\<rparr>
      else if renegadePipe (options c) \<and> charCode = 124 then c\<lparr>parseState := RenegadePipe1\<rparr>
      else if charCode = 10 then emitChar c [10]
      else if charCode = 13 then c
      else if charCode < 32 \<or> charCode \<ge> 127
      then emitChar c [if charCode < 256 then CP437_TO_UNICODE ! charCode else 65533]
      else emitChar c [charCode])"
  by (subst processCharCode.simps) simp

lemma processCharCode_Escape:
  "parseState c = Escape \<Longrightarrow> processCharCode c charCode =
     (if charCode = 91 then c\<lparr>parseState := Csi, csiParams := []\<rparr>
      else if charCode = 55
      then c\<lparr>savePositionActive := True, lineHasAnsi := True, parseState := Normal\<rparr>
      else if charCode = 56
      then c\<lparr>savePositionActive := False, lineHasAnsi := True, parseState := Normal\<rparr>
      else c\<lparr>parseState := Normal\<rparr>)"
  by (subst processCharCode.simps) simp

lemma processCharCode_Csi:
  "parseState c = Csi \<Longrightarrow> processCharCode c charCode =
     (if (charCode \<ge> 48 \<and> charCode \<le> 57) \<or> charCode = 59
      then c\<lparr>csiParams := csiParams c @ [charCode]\<rparr>
      else if charCode \<ge> 64 \<and> charCode \<le> 126
      then (processCsi c (csiParams c) charCode)\<lparr>parseState := Normal\<rparr>
      else c\<lparr>parseState := Normal\<rparr>)"
  by (subst processCharCode.simps) simp

lemma processCharCode_SynchronetCtrlA:
  "parseState c = SynchronetCtrlA \<Longrightarrow>
     processCharCode c charCode = (processSynchronetCode c charCode)\<lparr>parseState := Normal\<rparr>"
  by (subst processCharCode.simps) simp

lemma processCharCode_RenegadePipe1:
  "parseState c = RenegadePipe1 \<Longrightarrow> processCharCode c charCode =
     (if charCode \<ge> 48 \<and> charCode \<le> 57
      then c\<lparr>renegadeFirstDigit := charCode - 48, parseState := RenegadePipe2\<rparr>
      else processCharCode ((emitChar c (codes ''|''))\<lparr>parseState := Normal\<rparr>) charCode)"
  by (subst processCharCode.simps) simp

lemma processCharCode_RenegadePipe2:
  "parseState c = RenegadePipe2 \<Longrightarrow> processCharCode c charCode =
     (if charCode \<ge> 48 \<and> charCode \<le> 57
      then (let code = renegadeFirstDigit c * 10 + (charCode - 48)
            in (if code \<le> 23 then processRenegadeCode c code else c)\<lparr>parseState := Normal\<rparr>)
      else processCharCode
             ((emitChar (emitChar c (codes ''|'')) [48 + renegadeFirstDigit c])
                \<lparr>parseState := Normal\<rparr>) charCode)"
  by (subst processCharCode.simps) simp

subsection \<open>Frame properties and plain inputs\<close>

lemma emitSpaces_frame:
  "foreground (((\<lambda>c'. emitChar c' ch) ^^ n) c) = foreground c"
  "background (((\<lambda>c'. emitChar c' ch) ^^ n) c) = background c"
  "options (((\<lambda>c'. emitChar c' ch) ^^ n) c) = options c"
  by (induction n) (simp_all add: emitChar_frame)

lemma processSgr_options: "options (processSgr c params) = options c"
  by (simp add: processSgr_def Let_def switchColor_frame)

lemma processCsi_options: "options (processCsi c params command) = options c"
  by (simp add: processCsi_def Let_def processSgr_options emitChar_frame emitSpaces_frame)

lemma processSynchronetCode_options: "options (processSynchronetCode c code) = options c"
  by (simp add: processSynchronetCode_def Let_def switchColor_frame)

lemma processRenegadeCode_options: "options (processRenegadeCode c code) = options c"
  by (simp add: processRenegadeCode_def Let_def switchColor_frame)

lemma processCharCode_options: "options (processCharCode c charCode) = options c"
  by (cases "parseState c")
     (simp_all add: processCharCode_Normal processCharCode_Escape processCharCode_Csi
        processCharCode_SynchronetCtrlA processCharCode_RenegadePipe1 processCharCode_RenegadePipe2
        emitChar_frame processCsi_options processSynchronetCode_options
        processRenegadeCode_options Let_def)

lemma foldl_processCharCode_options: "options (foldl processCharCode c xs) = options c"
  by (induction xs arbitrary: c) (simp_all add: processCharCode_options)

lemma startConverter_fields:
  "options (startConverter opts) = opts"
  "foreground (startConverter opts) = 7"
  "background (startConverter opts) = 0"
  "parseState (startConverter opts) = Normal"
  "lineHasAnsi (startConverter opts) = False"
  "savePositionActive (startConverter opts) = False"
  "currentColumn (startConverter opts) = 0"
  "output (startConverter opts) = codes ''<pre class=\"ansi\"><ans-07>''"
  by (simp_all add: startConverter_def newConverter_def openTag_def Let_def colorToHex_def codes_def)

lemma findSub_None: "26 \<notin> set xs \<Longrightarrow> findSub xs i = None"
  by (induction xs arbitrary: i) auto

lemma contentEnd_plain:
  "26 \<notin> set input \<Longrightarrow> findSaucePositions input = None \<Longrightarrow> contentEnd input = length input"
  by (simp add: contentEnd_def findSub_None)

lemma convert_plain:
  "26 \<notin> set input \<Longrightarrow> findSaucePositions input = None \<Longrightarrow>
     convert opts input
       = output (closeTag (foldl processCharCode (startConverter opts) input)) @ codes ''</pre>''"
  by (simp add: convert_def contentEnd_plain Let_def)

subsection \<open>Colours stay CGA indices\<close>

lemma cgaIndex_or8: "cgaIndex x \<Longrightarrow> cgaIndex (x OR 8)"
  unfolding cgaIndex_def using OR_upper[of x 4 8] by (simp add: or_nonnegative_int_iff)

lemma cgaIndex_and7: "cgaIndex (x AND 7)"
  unfolding cgaIndex_def using AND_upper2[of 7 x] by (simp add: and_nonnegative_int_iff)

lemma cgaIndex_mix: "0 \<le> k \<Longrightarrow> k \<le> 7 \<Longrightarrow> cgaIndex ((x AND 8) OR k)"
  unfolding cgaIndex_def using OR_upper[of "x AND 8" 4 k] AND_upper2[of 8 x]
  by (simp add: or_nonnegative_int_iff and_nonnegative_int_iff)

lemma ansiToCga_range: "0 \<le> ansiToCga k \<and> ansiToCga k \<le> 7"
  by (simp add: ansiToCga_def)

lemma ansiBrightToCga_range: "cgaIndex (ansiBrightToCga k)"
  by (simp add: ansiBrightToCga_def cgaIndex_def)

lemma sgrStep_range:
  "cgaIndex (fst st) \<Longrightarrow> cgaIndex (snd st) \<Longrightarrow>
     cgaIndex (fst (sgrStep st code)) \<and> cgaIndex (snd (sgrStep st code))"
  using ansiToCga_range[of "code - 30"] ansiToCga_range[of "code - 40"]
  by (simp add: sgrStep_def Let_def cgaIndex_or8 cgaIndex_and7 cgaIndex_mix ansiBrightToCga_range)
     (simp add: cgaIndex_def)

lemma foldl_sgrStep_range:
  "cgaIndex (fst st) \<Longrightarrow> cgaIndex (snd st) \<Longrightarrow>
     cgaIndex (fst (foldl sgrStep st cs)) \<and> cgaIndex (snd (foldl sgrStep st cs))"
  by (induction cs arbitrary: st) (simp_all add: sgrStep_range)

lemma synchronetSwitch_range:
  "cgaIndex (fst st) \<Longrightarrow> cgaIndex (snd st) \<Longrightarrow>
     cgaIndex (fst (synchronetSwitch code st)) \<and> cgaIndex (snd (synchronetSwitch code st))"
  by (simp add: synchronetSwitch_def Let_def cgaIndex_or8 cgaIndex_and7)
     (simp add: cgaIndex_def)

lemma processSgr_range: "colorsInRange c \<Longrightarrow> colorsInRange (processSgr c params)"
  using foldl_sgrStep_range[of "(foreground c, background c)" "sgrCodes params"]
  by (simp add: colorsInRange_def processSgr_def Let_def switchColor_colors)

lemma processSynchronetCode_range: "colorsInRange c \<Longrightarrow> colorsInRange (processSynchronetCode c code)"
  using synchronetSwitch_range[of "(foreground c, background c)" code]
  by (simp add: colorsInRange_def processSynchronetCode_def Let_def switchColor_colors)

lemma processRenegadeCode_range: "colorsInRange c \<Longrightarrow> colorsInRange (processRenegadeCode c code)"
  by (auto simp: colorsInRange_def processRenegadeCode_def Let_def switchColor_colors cgaIndex_def)

lemma colorsInRange_frame:
  "foreground c' = foreground c \<Longrightarrow> background c' = background c \<Longrightarrow>
     colorsInRange c' = colorsInRange c"
  by (simp add: colorsInRange_def)

lemma emitChar_range: "colorsInRange (emitChar c ch) = colorsInRange c"
  by (simp add: colorsInRange_def emitChar_frame)

lemma processCsi_range: "colorsInRange c \<Longrightarrow> colorsInRange (processCsi c params command)"
  using processSgr_range[of "c\<lparr>lineHasAnsi := True\<rparr>" params]
  by (simp add: processCsi_def Let_def emitChar_range)
     (simp add: colorsInRange_def emitSpaces_frame)

lemma processCharCode_range: "colorsInRange c \<Longrightarrow> colorsInRange (processCharCode c charCode)"
  using processCsi_range[of c "csiParams c" charCode] processSynchronetCode_range[of c charCode]
    processRenegadeCode_range[of c]
  by (cases "parseState c")
     (simp_all add: processCharCode_Normal processCharCode_Escape processCharCode_Csi
        processCharCode_SynchronetCtrlA processCharCode_RenegadePipe1 processCharCode_RenegadePipe2
        emitChar_range Let_def colorsInRange_def emitChar_frame)

lemma foldl_processCharCode_range:
  "colorsInRange c \<Longrightarrow> colorsInRange (foldl processCharCode c xs)"
  by (induction xs arbitrary: c) (simp_all add: processCharCode_range)

lemma colorToHex_nibble: "cgaIndex x \<Longrightarrow> \<exists>h. colorToHex x = [h] \<and> isHexNibble h"
  by (auto simp: colorToHex_def cgaIndex_def isHexNibble_def)

lemma foldl_suppressed_text:
  "savePositionActive c \<Longrightarrow> parseState c = Normal \<Longrightarrow> 27 \<notin> set bs \<Longrightarrow>
   (synchronetCtrlA (options c) \<longrightarrow> 1 \<notin> set bs) \<Longrightarrow>
   (renegadePipe (options c) \<longrightarrow> 124 \<notin> set bs) \<Longrightarrow> foldl processCharCode c bs = c"
  by (induction bs) (auto simp: processCharCode_Normal emitChar_suppressed)

lemma foldl_append_lines:
  "foldl (\<lambda>out x. out @ f x) acc xs = acc @ concat (map f xs)"
  by (induction xs arbitrary: acc) simp_all

lemma if_append_out: "(if b then out @ seg else out) = out @ (if b then seg else [])"
  by simp

lemma if_append_both: "(if b then out @ x else out @ y) = out @ (if b then x else y)"
  by simp

lemma codes_append: "codes a @ codes b @ r = codes (a @ b) @ r"
  by (simp add: codes_def)

subsection \<open>Runs of literal characters and the soft wrap\<close>

lemma emitChar_literal:
  "\<not> savePositionActive c \<Longrightarrow> \<not> (lineHasAnsi c \<and> 80 \<le> currentColumn c) \<Longrightarrow> literalChar b \<Longrightarrow>
     emitChar c [b] = c\<lparr>output := output c @ [b], currentColumn := currentColumn c + 1\<rparr>"
  by (auto simp: emitChar_def Let_def literalChar_def codes_def)

lemma emitChar_literal_wrap:
  "\<not> savePositionActive c \<Longrightarrow> lineHasAnsi c \<Longrightarrow> 80 \<le> currentColumn c \<Longrightarrow> literalChar b \<Longrightarrow>
     emitChar c [b] = c\<lparr>output := output c @ [10, b], currentColumn := 1\<rparr>"
  by (auto simp: emitChar_def Let_def literalChar_def codes_def)

lemma processCharCode_literal:
  "parseState c = Normal \<Longrightarrow> literalChar b \<Longrightarrow> processCharCode c b = emitChar c [b]"
  by (auto simp: processCharCode_Normal literalChar_def)

lemma literal_run:
  "parseState c = Normal \<Longrightarrow> \<not> savePositionActive c \<Longrightarrow> list_all literalChar cs \<Longrightarrow>
   lineHasAnsi c \<longrightarrow> currentColumn c + length cs \<le> 80 \<Longrightarrow>
     foldl processCharCode c cs
       = c\<lparr>output := output c @ cs, currentColumn := currentColumn c + length cs\<rparr>"
proof (induction cs arbitrary: c)
  case Nil
  then show ?case by simp
next
  case (Cons b cs)
  have nw: "\<not> (lineHasAnsi c \<and> 80 \<le> currentColumn c)"
    using Cons.prems by auto
  have step: "processCharCode c b = c\<lparr>output := output c @ [b], currentColumn := currentColumn c + 1\<rparr>"
    using Cons.prems nw by (simp add: processCharCode_literal emitChar_literal del: de_Morgan_conj)
  show ?case
    using Cons.prems by (simp add: step Cons.IH)
qed

lemma csi_params_run:
  "parseState c = Csi \<Longrightarrow> list_all csiParamChar ps \<Longrightarrow>
     foldl processCharCode c ps = c\<lparr>csiParams := csiParams c @ ps\<rparr>"
proof (induction ps arbitrary: c)
  case Nil
  then show ?case by simp
next
  case (Cons p ps)
  have "processCharCode c p = c\<lparr>csiParams := csiParams c @ [p]\<rparr>"
    using Cons.prems by (simp add: processCharCode_Csi csiParamChar_def)
  then show ?case using Cons.prems by (simp add: Cons.IH)
qed

text \<open>The state after \<open>ESC [ ps m\<close> at the start of a conversion.\<close>

lemma sgr_at_start:
  assumes "list_all csiParamChar ps"
  shows "foldl processCharCode (startConverter opts) (27 # 91 # ps @ [109])
           = (processSgr ((startConverter opts)\<lparr>csiParams := ps, lineHasAnsi := True\<rparr>) ps)
               \<lparr>parseState := Normal\<rparr>"
proof -
  let ?c0 = "startConverter opts"
  have a: "processCharCode ?c0 27 = ?c0\<lparr>parseState := Escape\<rparr>"
    by (simp add: processCharCode_Normal startConverter_fields)
  have b: "processCharCode (?c0\<lparr>parseState := Escape\<rparr>) 91 = ?c0\<lparr>parseState := Csi, csiParams := []\<rparr>"
    by (simp add: processCharCode_Escape)
  have c: "foldl processCharCode (?c0\<lparr>parseState := Csi, csiParams := []\<rparr>) ps
             = ?c0\<lparr>parseState := Csi, csiParams := ps\<rparr>"
    using csi_params_run[of "?c0\<lparr>parseState := Csi, csiParams := []\<rparr>" ps] assms by simp
  have d: "processCharCode (?c0\<lparr>parseState := Csi, csiParams := ps\<rparr>) 109
             = (processSgr (?c0\<lparr>csiParams := ps, lineHasAnsi := True\<rparr>) ps)\<lparr>parseState := Normal\<rparr>"
    by (simp add: processCharCode_Csi processCsi_def Let_def processSgr_def switchColor_def
          openTag_def closeTag_def)
  show ?thesis by (simp add: a b c d)
qed

lemma soft_wrap_run:
  assumes "parseState c = Normal" and "\<not> savePositionActive c" and "lineHasAnsi c"
    and "currentColumn c = 0" and "list_all literalChar cs" and "length cs = 85"
  shows "foldl processCharCode c cs
           = c\<lparr>output := output c @ take 80 cs @ [10] @ drop 80 cs, currentColumn := 5\<rparr>"
proof -
  let ?c1 = "c\<lparr>output := output c @ take 80 cs, currentColumn := 80\<rparr>"
  let ?c2 = "c\<lparr>output := output c @ take 80 cs @ [10, cs ! 80], currentColumn := 1\<rparr>"
  have d80: "drop 80 cs = cs ! 80 # drop 81 cs"
    using Cons_nth_drop_Suc[of 80 cs] assms(6) by simp
  have split: "cs = take 80 cs @ cs ! 80 # drop 81 cs"
    using append_take_drop_id[of 80 cs] unfolding d80 by (rule sym)
  have lits: "list_all literalChar (take 80 cs)" "literalChar (cs ! 80)"
    "list_all literalChar (drop 81 cs)"
    using assms(5,6) by (auto simp: list_all_iff dest: in_set_takeD in_set_dropD)
  have r1: "foldl processCharCode c (take 80 cs) = ?c1"
    using literal_run[of c "take 80 cs"] assms lits by simp
  have r2: "processCharCode ?c1 (cs ! 80) = ?c2"
    using assms lits by (simp add: processCharCode_literal emitChar_literal_wrap)
  have r3: "foldl processCharCode ?c2 (drop 81 cs)
              = c\<lparr>output := output c @ take 80 cs @ [10, cs ! 80] @ drop 81 cs, currentColumn := 5\<rparr>"
    using literal_run[of ?c2 "drop 81 cs"] assms lits by simp
  have "foldl processCharCode c cs
          = foldl processCharCode (processCharCode (foldl processCharCode c (take 80 cs)) (cs ! 80)) (drop 81 cs)"
    by (subst split) (simp only: foldl_append foldl_Cons)
  also have "\<dots> = c\<lparr>output := output c @ take 80 cs @ [10, cs ! 80] @ drop 81 cs, currentColumn := 5\<rparr>"
    by (simp only: r1 r2 r3)
  also have "[10, cs ! 80] @ drop 81 cs = [10] @ drop 80 cs"
    by (simp add: d80)
  finally show ?thesis .
qed

lemma processSgr_output:
  "output (processSgr c ps) =
     (let st = foldl sgrStep (foreground c, background c) (sgrCodes ps)
      in if snd st \<noteq> background c \<or> fst st \<noteq> foreground c
         then output c @ codes ''</ans-'' @ colorToHex (background c) @ colorToHex (foreground c)
                @ codes ''>'' @ codes ''<ans-'' @ colorToHex (snd st) @ colorToHex (fst st) @ codes ''>''
         else output c)"
  by (simp add: processSgr_def switchColor_def openTag_def closeTag_def Let_def)

lemma processSgr_frame:
  "currentColumn (processSgr c ps) = currentColumn c"
  "lineHasAnsi (processSgr c ps) = lineHasAnsi c"
  "savePositionActive (processSgr c ps) = savePositionActive c"
  "parseState (processSgr c ps) = parseState c"
  "foreground (processSgr c ps) = fst (foldl sgrStep (foreground c, background c) (sgrCodes ps))"
  "background (processSgr c ps) = snd (foldl sgrStep (foreground c, background c) (sgrCodes ps))"
  by (simp_all add: processSgr_def Let_def switchColor_frame switchColor_colors)

lemma sgr_then_85:
  assumes ps: "list_all csiParamChar ps" and cs: "list_all literalChar cs" and len: "length cs = 85"
    and nosauce: "findSaucePositions (27 # 91 # ps @ 109 # cs) = None"
  shows "convert opts (27 # 91 # ps @ 109 # cs) =
     (let st = foldl sgrStep (7, 0) (sgrCodes ps);
          tag = colorToHex (snd st) @ colorToHex (fst st)
      in codes ''<pre class=\"ansi\"><ans-07>''
         @ (if snd st \<noteq> 0 \<or> fst st \<noteq> 7 then codes ''</ans-07><ans-'' @ tag @ codes ''>'' else [])
         @ take 80 cs @ [10] @ drop 80 cs
         @ codes ''</ans-'' @ tag @ codes ''></pre>'')"
proof -
  let ?input = "27 # 91 # ps @ 109 # cs"
  let ?start = "startConverter opts"
  let ?sgr = "(processSgr (?start\<lparr>csiParams := ps, lineHasAnsi := True\<rparr>) ps)\<lparr>parseState := Normal\<rparr>"
  have nosub: "26 \<notin> set ?input"
    using ps cs by (auto simp: list_all_iff csiParamChar_def literalChar_def)
  have "foldl processCharCode ?start ?input
          = foldl processCharCode (foldl processCharCode ?start (27 # 91 # ps @ [109])) cs"
    by simp
  also have "\<dots> = foldl processCharCode ?sgr cs"
    by (simp only: sgr_at_start[OF ps])
  also have "\<dots> = ?sgr\<lparr>output := output ?sgr @ take 80 cs @ [10] @ drop 80 cs, currentColumn := 5\<rparr>"
    by (rule soft_wrap_run) (simp_all add: processSgr_frame startConverter_fields cs len)
  finally have run: "foldl processCharCode ?start ?input
      = ?sgr\<lparr>output := output ?sgr @ take 80 cs @ [10] @ drop 80 cs, currentColumn := 5\<rparr>" .
  have hex07: "colorToHex 0 = codes ''0''" "colorToHex 7 = codes ''7''"
    by (simp_all add: colorToHex_def codes_def)
  show ?thesis
    unfolding convert_plain[OF nosub nosauce] run
    by (simp add: closeTag_def Let_def processSgr_frame processSgr_output startConverter_fields
          hex07 codes_def)
qed

subsection \<open>No escape, no injected line feed\<close>

lemma cp437_no_newline: "n < 256 \<Longrightarrow> CP437_TO_UNICODE ! n \<noteq> 10"
proof -
  have "10 \<notin> set CP437_TO_UNICODE" by (simp add: CP437_TO_UNICODE_def)
  moreover have "length CP437_TO_UNICODE = 256" by (simp add: CP437_TO_UNICODE_def)
  ultimately show "n < 256 \<Longrightarrow> CP437_TO_UNICODE ! n \<noteq> 10"
    by (metis nth_mem)
qed

lemma emitChar_plain_count:
  "\<not> lineHasAnsi c \<Longrightarrow> \<not> savePositionActive c \<Longrightarrow>
     \<not> lineHasAnsi (emitChar c [x]) \<and> \<not> savePositionActive (emitChar c [x]) \<and>
     parseState (emitChar c [x]) = parseState c \<and>
     count_list (output (emitChar c [x])) 10 = count_list (output c) 10 + (if x = 10 then 1 else 0)"
  by (simp add: emitChar_def Let_def codes_def)

lemma processCharCode_plain_count:
  assumes "parseState c = Normal" and "\<not> lineHasAnsi c" and "\<not> savePositionActive c"
    and "b \<noteq> 27" and "synchronetCtrlA (options c) \<longrightarrow> b \<noteq> 1"
    and "renegadePipe (options c) \<longrightarrow> b \<noteq> 124"
  shows "parseState (processCharCode c b) = Normal \<and> \<not> lineHasAnsi (processCharCode c b) \<and>
         \<not> savePositionActive (processCharCode c b) \<and>
         count_list (output (processCharCode c b)) 10
           = count_list (output c) 10 + (if b = 10 then 1 else 0)"
  using assms emitChar_plain_count[of c] cp437_no_newline[of b]
  by (auto simp: processCharCode_Normal)

lemma foldl_plain_count:
  assumes "parseState c = Normal" and "\<not> lineHasAnsi c" and "\<not> savePositionActive c"
    and "27 \<notin> set bs" and "synchronetCtrlA (options c) \<longrightarrow> 1 \<notin> set bs"
    and "renegadePipe (options c) \<longrightarrow> 124 \<notin> set bs"
  shows "count_list (output (foldl processCharCode c bs)) 10
           = count_list (output c) 10 + count_list bs 10"
  using assms
proof (induction bs arbitrary: c)
  case Nil
  then show ?case by simp
next
  case (Cons b bs)
  have st: "parseState (processCharCode c b) = Normal \<and> \<not> lineHasAnsi (processCharCode c b) \<and>
         \<not> savePositionActive (processCharCode c b) \<and>
         count_list (output (processCharCode c b)) 10
           = count_list (output c) 10 + (if b = 10 then 1 else 0)"
    using Cons.prems by (intro processCharCode_plain_count) auto
  have "count_list (output (foldl processCharCode (processCharCode c b) bs)) 10
          = count_list (output (processCharCode c b)) 10 + count_list bs 10"
    using Cons.prems st by (intro Cons.IH) (auto simp: processCharCode_options)
  then show ?case using st by simp
qed

lemma findSub_takeWhile:
  "take (case findSub xs i of Some p \<Rightarrow> p - i | None \<Rightarrow> length xs) xs = takeWhile (\<lambda>b. b \<noteq> 26) xs
   \<and> (\<forall>p. findSub xs i = Some p \<longrightarrow> i \<le> p)"
proof (induction xs arbitrary: i)
  case Nil
  then show ?case by simp
next
  case (Cons x xs)
  show ?case
  proof (cases "x = 26")
    case True
    then show ?thesis by simp
  next
    case False
    from Cons.IH[of "Suc i"] show ?thesis
      using False by (auto split: option.splits simp: take_Cons')
  qed
qed

lemma colorToHex_count: "count_list (colorToHex x) 10 = 0"
  by (auto simp: colorToHex_def codes_def)

lemma closeTag_count:
  "count_list (output (closeTag c)) 10 = count_list (output c) 10"
  by (simp add: closeTag_def Let_def colorToHex_count codes_def)

lemma no_escape_no_wrap:
  assumes "27 \<notin> set input" and "synchronetCtrlA opts \<longrightarrow> 1 \<notin> set input"
    and "renegadePipe opts \<longrightarrow> 124 \<notin> set input" and "findSaucePositions input = None"
  shows "count_list (convert opts input) 10 = count_list (takeWhile (\<lambda>b. b \<noteq> 26) input) 10"
proof -
  let ?body = "takeWhile (\<lambda>b. b \<noteq> 26) input"
  have ce: "take (contentEnd input) input = ?body"
    using findSub_takeWhile[of input 0] assms(4)
    by (simp add: contentEnd_def split: option.splits)
  have sub: "set ?body \<subseteq> set input" by (auto dest: set_takeWhileD)
  have "count_list (output (foldl processCharCode (startConverter opts) ?body)) 10
          = count_list (output (startConverter opts)) 10 + count_list ?body 10"
    using assms sub by (intro foldl_plain_count) (auto simp: startConverter_fields)
  then show ?thesis
    using assms(4)
    by (simp add: convert_def Let_def ce closeTag_count startConverter_fields codes_def)
qed

subsection \<open>Evaluating the trailer search\<close>

lemma find_down:
  "P i \<Longrightarrow> i \<le> n \<Longrightarrow> (\<forall>j. i < j \<and> j \<le> n \<longrightarrow> \<not> P j) \<Longrightarrow>
     List.find P (rev [0..<Suc n]) = Some i"
proof (induction n)
  case 0
  then show ?case by simp
next
  case (Suc n)
  show ?case
  proof (cases "i = Suc n")
    case True
    with Suc.prems show ?thesis by simp
  next
    case False
    with Suc.prems have "i \<le> n" "\<not> P (Suc n)" by auto
    moreover from this Suc.prems have "List.find P (rev [0..<Suc n]) = Some i"
      by (intro Suc.IH) auto
    ultimately show ?thesis by simp
  qed
qed

lemma lastIndexOf_SomeI:
  assumes "take (length pat) (drop i s) = pat" and "pat \<noteq> []"
    and "hd pat \<notin> set (drop (Suc i) s)"
  shows "lastIndexOf s pat = Some i"
proof -
  let ?P = "\<lambda>j. take (length pat) (drop j s) = pat"
  have i: "i < length s"
    using assms(1,2) by (cases "i < length s") auto
  have later: "\<not> ?P j" if "i < j" "j \<le> length s" for j
  proof
    assume pj: "?P j"
    with assms(2) have "j < length s" by (cases "j < length s") auto
    then have "drop j s = s ! j # drop (Suc j) s" by (simp add: Cons_nth_drop_Suc)
    with pj assms(2) have "hd pat = s ! j" by (cases pat) auto
    moreover have "s ! j \<in> set (drop (Suc i) s)"
      using that \<open>j < length s\<close> by (auto simp: in_set_conv_nth intro!: exI[of _ "j - Suc i"])
    ultimately show False using assms(3) by simp
  qed
  show ?thesis
    unfolding lastIndexOf_def
    using assms(1) i later by (intro find_down) auto
qed

lemma lastIndexOf_short: "length s < length pat \<Longrightarrow> lastIndexOf s pat = None"
  by (auto simp: lastIndexOf_def find_None_iff)

lemma replicate_numeral: "replicate (numeral k) x = x # replicate (pred_numeral k) x"
  by (simp add: numeral_eq_Suc)

lemma cp437_ascii: "32 \<le> n \<Longrightarrow> n < 127 \<Longrightarrow> CP437_TO_UNICODE ! n = n"
  by (simp add: CP437_TO_UNICODE_def nth_append del: upt_rec_numeral)

lemma findSub_Some:
  "26 \<in> set xs \<Longrightarrow> findSub xs i = Some (i + length (takeWhile (\<lambda>b. b \<noteq> 26) xs))"
  by (induction xs arbitrary: i) auto

lemma emitChar_newline:
  "\<not> savePositionActive c \<Longrightarrow>
     emitChar c [10] = c\<lparr>output := output c @ [10], currentColumn := 0, lineHasAnsi := False\<rparr>"
  by (simp add: emitChar_def Let_def codes_def)

section \<open>SGR: extended colour sub-sequences\<close>

text \<open>
  C1. The claim: \<open>38;5;N\<close> selects palette index \<open>N\<close> for the foreground, and
  \<open>ESC[38;5;196mRed 256\<close> gives \<open><ans-256 fg="196" bg="bg-0">Red 256</ans-256>\<close>.
  \<open>processSgr\<close> has no case for 38 or 48: on this input 38 is skipped, 5 is taken as
  the blink code and sets the high bit of the background, and 196 is skipped, so the text
  is wrapped in the CGA tag \<open>ans-87\<close>.
\<close>

theorem sgr_256_foreground_at_196:
  "convert defaultOptions (27 # codes ''[38;5;196mRed 256'')
     = codes ''<pre class=\"ansi\"><ans-07></ans-07><ans-87>Red 256</ans-87></pre>''"
  by code_simp

section \<open>Renegade pipe codes\<close>

text \<open>
  C2. The claim: with the Renegade dialect enabled, \<open>||04Text\<close> gives output containing the
  literal \<open>|04Text\<close>. In \<open>processCharCode\<close> the second pipe is reprocessed in state
  \<open>Normal\<close>, where it opens a new pipe code: one pipe is emitted and \<open>04\<close> then switches
  the foreground to red.
\<close>

theorem renegade_double_pipe_at_04:
  "convert renegadeOptions (codes ''||04Text'')
     = codes ''<pre class=\"ansi\"><ans-07>|</ans-07><ans-04>Text</ans-04></pre>'' \<and>
   \<not> stringIncludes (convert renegadeOptions (codes ''||04Text'')) (codes ''|04Text'')"
  by code_simp




section \<open>End of input inside a vendor sequence\<close>

text \<open>
  C4. The claim: when the input ends right after a pipe (Renegade enabled) or a Ctrl-A byte
  (Synchronet enabled), the prefix character is flushed to the output as a literal.
  \<open>convert\<close> closes the tag after its loop without looking at the parse state, so the
  pending prefix leaves no trace in the output.
\<close>

theorem trailing_prefix_counterexample:
  "convert renegadeOptions (codes ''ab|'') = codes ''<pre class=\"ansi\"><ans-07>ab</ans-07></pre>'' \<and>
   \<not> stringIncludes (convert renegadeOptions (codes ''ab|'')) (codes ''|'') \<and>
   convert synchronetOptions (codes ''ab'' @ [1]) = codes ''<pre class=\"ansi\"><ans-07>ab</ans-07></pre>''"
  by code_simp

text \<open>
  C4, as amended. With the Synchronet dialect enabled, a Ctrl-A byte that ends the input
  (no SUB byte and no SAUCE marker in the input, parser in state \<open>Normal\<close> before it) is
  discarded: it adds nothing to the output, and the conversion is the content before it
  followed by the closing tags. (In Synchronet mode a Ctrl-A never appears in the output,
  whatever follows it.) Nothing is stated here about a pipe that ends the input.
\<close>

theorem trailing_ctrl_a_discarded:
  assumes "synchronetCtrlA opts"
    and "parseState (foldl processCharCode (startConverter opts) xs) = Normal"
    and "26 \<notin> set xs" and "findSaucePositions (xs @ [1]) = None"
  shows "output (processCharCode (foldl processCharCode (startConverter opts) xs) 1)
           = output (foldl processCharCode (startConverter opts) xs) \<and>
         convert opts (xs @ [1])
           = output (closeTag (foldl processCharCode (startConverter opts) xs)) @ codes ''</pre>''"
proof -
  let ?c = "foldl processCharCode (startConverter opts) xs"
  have opts: "options ?c = opts"
    by (simp add: foldl_processCharCode_options startConverter_fields)
  have step: "processCharCode ?c 1 = ?c\<lparr>parseState := SynchronetCtrlA\<rparr>"
    using assms(1,2) opts by (simp add: processCharCode_Normal)
  have "convert opts (xs @ [1]) = output (closeTag (processCharCode ?c 1)) @ codes ''</pre>''"
    using assms(3,4) by (simp add: convert_plain)
  with step show ?thesis
    by (simp add: closeTag_def Let_def)
qed

theorem trailing_ctrl_a_discarded_witness:
  "convert synchronetOptions (codes ''ab'' @ [1])
     = output (closeTag (foldl processCharCode (startConverter synchronetOptions) (codes ''ab'')))
         @ codes ''</pre>''"
proof -
  have h1: "synchronetCtrlA synchronetOptions" by (simp add: synchronetOptions_def)
  have h2: "parseState (foldl processCharCode (startConverter synchronetOptions) (codes ''ab'')) = Normal"
    by code_simp
  have h3: "26 \<notin> set (codes ''ab'')" by (simp add: codes_def)
  have h4: "findSaucePositions (codes ''ab'' @ [1]) = None" by code_simp
  show ?thesis using trailing_ctrl_a_discarded [OF h1 h2 h3 h4] by simp
qed

section \<open>Save-position suppression\<close>

text \<open>
  C7. While save-position suppression is active \<open>emitChar\<close> returns the converter as it
  got it: nothing is emitted, the column counter and the line-escape flag keep their
  values. A run of text bytes processed in that mode leaves the whole converter unchanged.
  \<open>ESC[s\<close> and \<open>ESC 7\<close> switch the mode on, \<open>ESC[u\<close> and \<open>ESC 8\<close> switch it off.
  The conversion of \<open>Before ESC[s Hidden ESC[u After\<close> contains \<open>Before\<close> and
  \<open>After\<close> and does not contain \<open>Hidden\<close>.
\<close>

theorem save_position_discards_text:
  "(savePositionActive c \<longrightarrow> emitChar c ch = c) \<and>
   (savePositionActive c \<and> parseState c = Normal \<and> 27 \<notin> set bs \<and>
      (synchronetCtrlA (options c) \<longrightarrow> 1 \<notin> set bs) \<and>
      (renegadePipe (options c) \<longrightarrow> 124 \<notin> set bs)
      \<longrightarrow> foldl processCharCode c bs = c) \<and>
   savePositionActive (processCsi c params 115) \<and>
   \<not> savePositionActive (processCsi c params 117) \<and>
   (parseState c = Escape \<longrightarrow>
      savePositionActive (processCharCode c 55) \<and> \<not> savePositionActive (processCharCode c 56)) \<and>
   convert defaultOptions (codes ''Before'' @ 27 # codes ''[sHidden'' @ 27 # codes ''[uAfter'')
     = codes ''<pre class=\"ansi\"><ans-07>BeforeAfter</ans-07></pre>'' \<and>
   stringIncludes
     (convert defaultOptions (codes ''Before'' @ 27 # codes ''[sHidden'' @ 27 # codes ''[uAfter''))
     (codes ''Before'') \<and>
   stringIncludes
     (convert defaultOptions (codes ''Before'' @ 27 # codes ''[sHidden'' @ 27 # codes ''[uAfter''))
     (codes ''After'') \<and>
   \<not> stringIncludes
     (convert defaultOptions (codes ''Before'' @ 27 # codes ''[sHidden'' @ 27 # codes ''[uAfter''))
     (codes ''Hidden'')"
proof -
  have ex: "convert defaultOptions (codes ''Before'' @ 27 # codes ''[sHidden'' @ 27 # codes ''[uAfter'')
     = codes ''<pre class=\"ansi\"><ans-07>BeforeAfter</ans-07></pre>''"
    by code_simp
  have inc: "stringIncludes (codes ''<pre class=\"ansi\"><ans-07>BeforeAfter</ans-07></pre>'') (codes ''Before'')"
    "stringIncludes (codes ''<pre class=\"ansi\"><ans-07>BeforeAfter</ans-07></pre>'') (codes ''After'')"
    "\<not> stringIncludes (codes ''<pre class=\"ansi\"><ans-07>BeforeAfter</ans-07></pre>'') (codes ''Hidden'')"
    by code_simp+
  have csi: "savePositionActive (processCsi c params 115)" "\<not> savePositionActive (processCsi c params 117)"
    by (simp_all add: processCsi_def)
  show ?thesis
    using foldl_suppressed_text[of c bs] csi inc
    by (simp add: ex emitChar_suppressed processCharCode_Escape)
qed

theorem save_position_discards_text_witness:
  "emitChar ((startConverter defaultOptions)\<lparr>savePositionActive := True\<rparr>) (codes ''H'')
     = (startConverter defaultOptions)\<lparr>savePositionActive := True\<rparr> \<and>
   foldl processCharCode ((startConverter defaultOptions)\<lparr>savePositionActive := True\<rparr>) (codes ''Hidden'')
     = (startConverter defaultOptions)\<lparr>savePositionActive := True\<rparr> \<and>
   savePositionActive (processCharCode ((startConverter defaultOptions)\<lparr>parseState := Escape\<rparr>) 55)"
  using save_position_discards_text
    [of "(startConverter defaultOptions)\<lparr>savePositionActive := True\<rparr>" "codes ''H''" "codes ''Hidden''"]
    save_position_discards_text
    [of "(startConverter defaultOptions)\<lparr>parseState := Escape\<rparr>"]
  by (simp add: startConverter_fields codes_def defaultOptions_def)

section \<open>The formatted SAUCE block\<close>

text \<open>
  C8. For every SAUCE record, \<open>formatSauceOutput\<close> gives the block the specification
  describes: one \<open>Key: Value\<close> line per non-empty field in the order Title, Author,
  Group, Date, Size, Font, then one Comment line per comment, with the date rewritten to
  CCYY-MM-DD exactly when it is eight digits and the size line present exactly when width
  or height is not zero.
\<close>

theorem sauce_block_format:
  "formatSauceOutput s = specSauceBlock s"
proof -
  have "formatSauceOutput s
          = (if title s \<noteq> [] then codes ''Title: '' @ title s @ [10] else [])
            @ (if author s \<noteq> [] then codes ''Author: '' @ author s @ [10] else [])
            @ (if group s \<noteq> [] then codes ''Group: '' @ group s @ [10] else [])
            @ (if date s \<noteq> []
               then (if length (date s) = 8 \<and> list_all isDigit (date s)
                     then codes ''Date: '' @ slice (date s) 0 4 @ codes ''-''
                            @ slice (date s) 4 6 @ codes ''-'' @ slice (date s) 6 8 @ [10]
                     else codes ''Date: '' @ date s @ [10])
               else [])
            @ (if width s > 0 \<or> height s > 0
               then codes ''Size: '' @ showNat (width s) @ codes ''x'' @ showNat (height s) @ [10]
               else [])
            @ (if font s \<noteq> [] then codes ''Font: '' @ font s @ [10] else [])
            @ concat (map (\<lambda>comment. codes ''Comment: '' @ comment @ [10]) (comments s))"
    unfolding formatSauceOutput_def if_append_out if_append_both
    by (simp only: Let_def foldl_append_lines append_Nil append_assoc)
  also have "\<dots> = specSauceBlock s"
    by (simp add: specSauceBlock_def specLine_def[abs_def] specDate_def slice_def codes_append)
  finally show ?thesis .
qed

theorem sauce_block_format_witness:
  "formatSauceOutput
     \<lparr> title = codes ''Test Title'', author = [], group = [], date = codes ''20240115'',
       width = 80, height = 25, comments = [codes ''a comment''], font = [] \<rparr>
   = codes ''Title: Test Title'' @ [10] @ codes ''Date: 2024-01-15'' @ [10]
     @ codes ''Size: 80x25'' @ [10] @ codes ''Comment: a comment'' @ [10]"
proof -
  have "specSauceBlock
     \<lparr> title = codes ''Test Title'', author = [], group = [], date = codes ''20240115'',
       width = 80, height = 25, comments = [codes ''a comment''], font = [] \<rparr>
   = codes ''Title: Test Title'' @ [10] @ codes ''Date: 2024-01-15'' @ [10]
     @ codes ''Size: 80x25'' @ [10] @ codes ''Comment: a comment'' @ [10]"
    by (simp add: specSauceBlock_def specLine_def specDate_def isDigit_def codes_def
          showNat.simps)
  then show ?thesis unfolding sauce_block_format .
qed

section \<open>Synchronet Ctrl-A codes\<close>

lemma synchronetSwitch_idem:
  "synchronetSwitch code (synchronetSwitch code st) = synchronetSwitch code st"
  by (simp add: synchronetSwitch_def Let_def or.assoc and.assoc)

text \<open>
  C9. Every Synchronet code is idempotent: the switch of \<open>processSynchronetCode\<close> applied
  twice to a foreground/background pair gives the pair of one application, for every code
  byte and every pair; and a second call of \<open>processSynchronetCode\<close> with the same code
  leaves the whole converter as the first call left it.
\<close>

theorem synchronet_code_idempotent:
  "synchronetSwitch code (synchronetSwitch code st) = synchronetSwitch code st \<and>
   processSynchronetCode (processSynchronetCode c code) code = processSynchronetCode c code"
proof -
  let ?c1 = "processSynchronetCode c code"
  let ?st = "synchronetSwitch code (foreground c, background c)"
  have col: "foreground ?c1 = fst ?st" "background ?c1 = snd ?st"
    by (simp_all add: processSynchronetCode_def Let_def switchColor_colors)
  have "lineHasAnsi ?c1"
    by (simp add: processSynchronetCode_def Let_def switchColor_frame)
  then have e: "?c1\<lparr>lineHasAnsi := True\<rparr> = ?c1" by simp
  have "processSynchronetCode ?c1 code
          = switchColor ?c1 (snd (synchronetSwitch code ?st)) (fst (synchronetSwitch code ?st))"
    by (simp add: processSynchronetCode_def[of ?c1] Let_def e col)
  also have "\<dots> = switchColor ?c1 (background ?c1) (foreground ?c1)"
    by (simp only: synchronetSwitch_idem col)
  finally show ?thesis by (simp add: switchColor_same synchronetSwitch_idem)
qed

section \<open>The colour fields are CGA indices\<close>

text \<open>
  C10. A conversion starts with foreground 7 and background 0; the SGR processor, the
  Synchronet handler, the Renegade handler and every step of \<open>processCharCode\<close> keep
  both fields in the range 0 to 15, so they are in that range after any sequence of input
  bytes. For colours in that range \<open>openTag\<close> and \<open>closeTag\<close> append \<open><ans-\<close>
  (or \<open></ans-\<close>), exactly two lowercase hexadecimal digits and \<open>>\<close>.
\<close>

theorem colors_stay_cga:
  "colorsInRange (startConverter opts) \<and>
   (colorsInRange c \<longrightarrow>
      colorsInRange (processSgr c params) \<and>
      colorsInRange (processSynchronetCode c code) \<and>
      colorsInRange (processRenegadeCode c rcode) \<and>
      colorsInRange (processCharCode c charCode)) \<and>
   colorsInRange (foldl processCharCode (startConverter opts) input) \<and>
   (colorsInRange c \<longrightarrow>
      (\<exists>k f. isHexNibble k \<and> isHexNibble f \<and>
         output (openTag c) = output c @ codes ''<ans-'' @ [k, f] @ codes ''>'' \<and>
         output (closeTag c) = output c @ codes ''</ans-'' @ [k, f] @ codes ''>''))"
proof -
  have start: "colorsInRange (startConverter opts)"
    by (simp add: colorsInRange_def cgaIndex_def startConverter_fields)
  have tags: "\<exists>k f. isHexNibble k \<and> isHexNibble f \<and>
         output (openTag c) = output c @ codes ''<ans-'' @ [k, f] @ codes ''>'' \<and>
         output (closeTag c) = output c @ codes ''</ans-'' @ [k, f] @ codes ''>''"
    if "colorsInRange c"
  proof -
    from that obtain k f where "colorToHex (background c) = [k]" "isHexNibble k"
      "colorToHex (foreground c) = [f]" "isHexNibble f"
      using colorToHex_nibble unfolding colorsInRange_def by blast
    then show ?thesis by (auto simp: openTag_def closeTag_def Let_def)
  qed
  show ?thesis
    using start tags foldl_processCharCode_range[OF start]
    by (simp add: processSgr_range processSynchronetCode_range processRenegadeCode_range
          processCharCode_range)
qed

theorem colors_stay_cga_witness:
  "colorsInRange (startConverter defaultOptions) \<and>
   colorsInRange (processSgr (startConverter defaultOptions) (codes ''1;31'')) \<and>
   colorsInRange (processSynchronetCode (startConverter defaultOptions) 104) \<and>
   colorsInRange (processRenegadeCode (startConverter defaultOptions) 23) \<and>
   (\<exists>k f. isHexNibble k \<and> isHexNibble f \<and>
      output (openTag (startConverter defaultOptions))
        = output (startConverter defaultOptions) @ codes ''<ans-'' @ [k, f] @ codes ''>'')"
  using colors_stay_cga [of defaultOptions "startConverter defaultOptions" "codes ''1;31''" 104 23 0 "[]"]
  by blast

end
